theory Spec2Isabelle
  imports Main "HOL-Library.Word"
begin

section \<open>The archive manager of the FS service (core/hle/service/fs/archive.h)\<close>

text \<open>
  The header declares the identifiers of the archive categories, the media types, the
  handle type and the class \<open>ArchiveManager\<close> with its three data members. The bodies
  of the member functions, the factories and the backends (\<open>archive.cpp\<close>,
  \<open>core/file_sys\<close>) are not among the sources; a definition that stands for one of
  them says so in the comment before it and follows the specification's description.
\<close>

subsection \<open>Fixed-width integers\<close>

type_synonym u8 = "8 word"
type_synonym u32 = "32 word"
type_synonym u64 = "64 word"

subsection \<open>\<open>enum class ArchiveIdCode : u32\<close>\<close>

text \<open>
  The enumeration has the underlying type \<open>u32\<close>: a caller may pass any 32-bit value,
  ten of which are named. The named values, in the order of the header.
\<close>

type_synonym ArchiveIdCode = u32

definition SelfNCCH :: ArchiveIdCode where
  "SelfNCCH = 0x00000003"

definition SaveData :: ArchiveIdCode where
  "SaveData = 0x00000004"

definition ExtSaveData :: ArchiveIdCode where
  "ExtSaveData = 0x00000006"

definition SharedExtSaveData :: ArchiveIdCode where
  "SharedExtSaveData = 0x00000007"

definition SystemSaveData :: ArchiveIdCode where
  "SystemSaveData = 0x00000008"

definition SDMC :: ArchiveIdCode where
  "SDMC = 0x00000009"

definition SDMCWriteOnly :: ArchiveIdCode where
  "SDMCWriteOnly = 0x0000000A"

definition NCCH :: ArchiveIdCode where
  "NCCH = 0x2345678A"

definition OtherSaveDataGeneral :: ArchiveIdCode where
  "OtherSaveDataGeneral = 0x567890B2"

definition OtherSaveDataPermitted :: ArchiveIdCode where
  "OtherSaveDataPermitted = 0x567890B4"

text \<open>All named categories, in declaration order.\<close>

definition ArchiveIdCode_values :: "ArchiveIdCode list" where
  "ArchiveIdCode_values =
     [SelfNCCH, SaveData, ExtSaveData, SharedExtSaveData, SystemSaveData, SDMC,
      SDMCWriteOnly, NCCH, OtherSaveDataGeneral, OtherSaveDataPermitted]"

lemmas ArchiveIdCode_defs =
  SelfNCCH_def SaveData_def ExtSaveData_def SharedExtSaveData_def SystemSaveData_def
  SDMC_def SDMCWriteOnly_def NCCH_def OtherSaveDataGeneral_def OtherSaveDataPermitted_def

subsection \<open>\<open>enum class MediaType : u32\<close>\<close>

type_synonym MediaType = u32

definition MediaType_NAND :: MediaType where
  "MediaType_NAND = 0"

definition MediaType_SDMC :: MediaType where
  "MediaType_SDMC = 1"

definition MediaType_GameCard :: MediaType where
  "MediaType_GameCard = 2"

definition MediaType_values :: "MediaType list" where
  "MediaType_values = [MediaType_NAND, MediaType_SDMC, MediaType_GameCard]"

lemmas MediaType_defs = MediaType_NAND_def MediaType_SDMC_def MediaType_GameCard_def

subsection \<open>\<open>typedef u64 ArchiveHandle\<close>\<close>

type_synonym ArchiveHandle = u64

subsection \<open>Results\<close>

text \<open>
  Modelled from the spec: the failure descriptor of \<open>ResultCode\<close> and \<open>ResultVal\<close>
  (\<open>core/hle/result.h\<close>, not among the sources). A fallible operation returns a
  success value or a failure descriptor (sections 6 and 7); the failures told apart
  are Not-Found, Invalid-Path and Already-Exists, and any other failure of a factory
  or a backend is passed through.
\<close>

datatype ResultError = NotFound | InvalidPath | AlreadyExists | BackendFailure

type_synonym 'a ResultVal = "ResultError + 'a"
type_synonym ResultCode = "ResultError + unit"

abbreviation RESULT_SUCCESS :: ResultCode where
  "RESULT_SUCCESS \<equiv> Inr ()"

subsection \<open>Paths, format info and the objects handed out\<close>

text \<open>
  Modelled from the spec: \<open>FileSys::Path\<close> (\<open>core/file_sys/archive_backend.h\<close>, not
  among the sources). A path carries nothing, a binary blob or a text string
  (section 3).
\<close>

datatype Path = EmptyPath | BinaryPath "u8 list" | TextPath string

text \<open>
  Modelled from the spec: \<open>FileSys::Mode\<close> (not among the sources), the mode under
  which a file is opened; the manager forwards it unchanged (section 4.4).
\<close>

type_synonym Mode = u32

text \<open>
  Modelled from the spec: \<open>FileSys::ArchiveFormatInfo\<close> (not among the sources): the
  size and item-count limits and the duplicate-data flag (section 3).
\<close>

record ArchiveFormatInfo =
  total_size :: u32
  number_directories :: u32
  number_files :: u32
  duplicate_data :: bool

text \<open>
  Modelled from the spec: \<open>FileSys::ArchiveBackend\<close>, \<open>File\<close> and \<open>Directory\<close>
  (\<open>archive_backend.h\<close>, \<open>file.h\<close> and \<open>directory.h\<close>, not among the sources). A
  backend instance is bound to one resolved storage location, the category and the
  path its factory resolved; file and directory objects refer to the backend's
  location and do not own it (section 2).
\<close>

type_synonym Location = "ArchiveIdCode \<times> Path"

record ArchiveBackend =
  location :: Location

record File =
  file_location :: Location
  file_path :: Path
  file_mode :: Mode

record Directory =
  directory_location :: Location
  directory_path :: Path

text \<open>\<open>Loader::AppLoader\<close> is only forward-declared; a loader is known by its program.\<close>

type_synonym AppLoader = u64

subsection \<open>Backing storage\<close>

text \<open>
  Modelled from the spec: the storage location a backend works on (the
  \<open>ArchiveBackend\<close> implementations are not among the sources). A location holds its
  persisted format info, its files, each with its size, its directories and its
  free space (sections 2 and 3). The bytes of a file are not modelled.
\<close>

record Volume =
  format_info :: ArchiveFormatInfo
  files :: "Path \<rightharpoonup> u64"
  directories :: "Path set"
  free_space :: u64

text \<open>
  Modelled from the spec: whether a path names a file or a directory of the location.
\<close>

definition entry_exists :: "Volume \<Rightarrow> Path \<Rightarrow> bool" where
  "entry_exists v path = (files v path \<noteq> None \<or> path \<in> directories v)"

text \<open>
  Modelled from the spec: what lies under a directory. A text path lies inside a
  directory when it continues the directory's path after a slash.
\<close>

fun inside :: "Path \<Rightarrow> Path \<Rightarrow> bool" where
  "inside (TextPath d) (TextPath p) = (take (Suc (length d)) p = d @ ''/'')"
| "inside _ _ = False"

text \<open>
  Modelled from the spec: the backend's file open. A file that is not there is
  Not-Found; the file object refers to the location and keeps path and mode.
\<close>

definition Volume_OpenFile :: "Location \<Rightarrow> Path \<Rightarrow> Mode \<Rightarrow> Volume \<Rightarrow> File ResultVal" where
  "Volume_OpenFile loc path mode v =
     (if files v path = None then Inl NotFound
      else Inr \<lparr>file_location = loc, file_path = path, file_mode = mode\<rparr>)"

text \<open>
  Modelled from the spec: the backend's file deletion; a file that is not there is
  Not-Found (the walk-through of section 8).
\<close>

definition Volume_DeleteFile :: "Path \<Rightarrow> Volume \<Rightarrow> Volume ResultVal" where
  "Volume_DeleteFile path v =
     (if files v path = None then Inl NotFound
      else Inr (v\<lparr>files := (files v)(path := None)\<rparr>))"

text \<open>
  Modelled from the spec: the backend's file creation (section 4.4). The new file is
  entered with the size asked for; what its bytes are is left to the backend by the
  specification and is not modelled. An entry that is there already is
  Already-Exists.
\<close>

definition Volume_CreateFile :: "Path \<Rightarrow> u64 \<Rightarrow> Volume \<Rightarrow> Volume ResultVal" where
  "Volume_CreateFile path file_size v =
     (if entry_exists v path then Inl AlreadyExists
      else Inr (v\<lparr>files := (files v)(path \<mapsto> file_size)\<rparr>))"

text \<open>
  Modelled from the spec: the backend's directory open; a directory that is not
  there is Not-Found.
\<close>

definition Volume_OpenDirectory :: "Location \<Rightarrow> Path \<Rightarrow> Volume \<Rightarrow> Directory ResultVal" where
  "Volume_OpenDirectory loc path v =
     (if path \<in> directories v
      then Inr \<lparr>directory_location = loc, directory_path = path\<rparr>
      else Inl NotFound)"

text \<open>
  Modelled from the spec: the backend's directory creation; an entry that is there
  already is Already-Exists.
\<close>

definition Volume_CreateDirectory :: "Path \<Rightarrow> Volume \<Rightarrow> Volume ResultVal" where
  "Volume_CreateDirectory path v =
     (if entry_exists v path then Inl AlreadyExists
      else Inr (v\<lparr>directories := insert path (directories v)\<rparr>))"

text \<open>
  Modelled from the spec: the backend's directory deletion; a directory that is not
  there is Not-Found.
\<close>

definition Volume_DeleteDirectory :: "Path \<Rightarrow> Volume \<Rightarrow> Volume ResultVal" where
  "Volume_DeleteDirectory path v =
     (if path \<in> directories v
      then Inr (v\<lparr>directories := directories v - {path}\<rparr>)
      else Inl NotFound)"

text \<open>
  Modelled from the spec: the backend's recursive deletion, of the directory and
  anything under it, as the header words it.
\<close>

definition Volume_DeleteDirectoryRecursively :: "Path \<Rightarrow> Volume \<Rightarrow> Volume ResultVal" where
  "Volume_DeleteDirectoryRecursively path v =
     (if path \<in> directories v
      then Inr (v\<lparr>files := (\<lambda>p. if inside path p then None else files v p),
                  directories := {d \<in> directories v. d \<noteq> path \<and> \<not> inside path d}\<rparr>)
      else Inl NotFound)"

text \<open>
  Modelled from the spec: the backend's free-space query.
\<close>

definition Volume_GetFreeBytes :: "Volume \<Rightarrow> u64" where
  "Volume_GetFreeBytes v = free_space v"

text \<open>
  Modelled from the spec: the storage location a format leaves behind, erased and
  provisioned with the supplied format info (section 4.6).
\<close>

definition formatted_Volume :: "ArchiveFormatInfo \<Rightarrow> Volume" where
  "formatted_Volume info =
     \<lparr>format_info = info, files = Map.empty, directories = {},
      free_space = ucast (total_size info)\<rparr>"

subsection \<open>Factories\<close>

text \<open>
  Modelled from the spec: \<open>FileSys::ArchiveFactory\<close> (not among the sources). A factory
  is bound to its category; the factory of the self-container category also holds the
  application it was last bound to, none at first (sections 3 and 4.1).
\<close>

record ArchiveFactory =
  factory_id_code :: ArchiveIdCode
  ncch_data :: "AppLoader option"

text \<open>
  Modelled from the spec: the categories whose path is a binary identifier pair, the
  save-data-style categories of section 3. The walk-through of section 8 opens the
  save data category itself with an empty path.
\<close>

definition save_data_style :: "ArchiveIdCode \<Rightarrow> bool" where
  "save_data_style c =
     (c \<in> set [ExtSaveData, SharedExtSaveData, SystemSaveData,
                OtherSaveDataGeneral, OtherSaveDataPermitted])"

text \<open>
  Modelled from the spec: the shape of path a category expects (sections 3 and 4.2):
  a binary pair of two 32-bit words for the save-data-style categories, an empty
  path for the others.
\<close>

fun path_accepted :: "ArchiveIdCode \<Rightarrow> Path \<Rightarrow> bool" where
  "path_accepted c EmptyPath = (\<not> save_data_style c)"
| "path_accepted c (BinaryPath bytes) = (save_data_style c \<and> length bytes = 8)"
| "path_accepted c (TextPath text) = False"

text \<open>
  Modelled from the spec: the factory's open (section 4.2). A path of the wrong shape
  is Invalid-Path; the self-container category is usable only once an application
  is bound; a location that is missing is Not-Found; otherwise the backend is bound
  to the resolved location.
\<close>

definition Factory_Open ::
  "ArchiveFactory \<Rightarrow> Path \<Rightarrow> (Location \<rightharpoonup> Volume) \<Rightarrow> ArchiveBackend ResultVal" where
  "Factory_Open factory path storage =
     (if \<not> path_accepted (factory_id_code factory) path then Inl InvalidPath
      else if factory_id_code factory = SelfNCCH \<and> ncch_data factory = None
        then Inl BackendFailure
      else if storage (factory_id_code factory, path) = None then Inl NotFound
      else Inr \<lparr>location = (factory_id_code factory, path)\<rparr>)"

text \<open>
  Modelled from the spec: the factory's format (section 4.6), which erases the
  location and provisions it with the supplied format info.
\<close>

definition Factory_Format ::
  "ArchiveFactory \<Rightarrow> Path \<Rightarrow> ArchiveFormatInfo \<Rightarrow> (Location \<rightharpoonup> Volume)
     \<Rightarrow> (Location \<rightharpoonup> Volume) ResultVal" where
  "Factory_Format factory path info storage =
     (if \<not> path_accepted (factory_id_code factory) path then Inl InvalidPath
      else Inr (storage((factory_id_code factory, path) \<mapsto> formatted_Volume info)))"

text \<open>
  Modelled from the spec: the factory's format info (section 4.6), read back from
  what the location persists, with no open archive needed.
\<close>

definition Factory_GetFormatInfo ::
  "ArchiveFactory \<Rightarrow> Path \<Rightarrow> (Location \<rightharpoonup> Volume) \<Rightarrow> ArchiveFormatInfo ResultVal" where
  "Factory_GetFormatInfo factory path storage =
     (if \<not> path_accepted (factory_id_code factory) path then Inl InvalidPath
      else case storage (factory_id_code factory, path) of
             None \<Rightarrow> Inl NotFound
           | Some v \<Rightarrow> Inr (format_info v))"

subsection \<open>\<open>class ArchiveManager\<close>\<close>

text \<open>
  The first three fields are the data members of the class, with the types of the
  header: the map of registered factories, the map of active handles, and the next
  handle, a \<open>u64\<close>. The last three are modelled from the spec: the storage the
  factories and backends act on (sections 4.6 and 4.7), made explicit as the
  locations archives are opened on, the extended save data (icon and format info) by
  medium, high and low word, and the system save data folders by high and low word.
\<close>

record ArchiveManager =
  id_code_map :: "ArchiveIdCode \<rightharpoonup> ArchiveFactory"
  handle_map :: "ArchiveHandle \<rightharpoonup> ArchiveBackend"
  next_handle :: ArchiveHandle
  archives :: "Location \<rightharpoonup> Volume"
  ext_savedata :: "MediaType \<times> u32 \<times> u32 \<rightharpoonup> u8 list \<times> ArchiveFormatInfo"
  system_savedata :: "(u32 \<times> u32) set"

text \<open>
  Modelled from the spec: the body of \<open>GetArchive\<close> (section 4.9), the one lookup by
  which a handle becomes a backend. The header declares it with a pointer result;
  the null pointer for a handle with no entry is \<open>None\<close>.
\<close>

definition GetArchive :: "ArchiveHandle \<Rightarrow> ArchiveManager \<Rightarrow> ArchiveBackend option" where
  "GetArchive handle s = handle_map s handle"

text \<open>
  Modelled from the spec: the body of \<open>RegisterArchiveType\<close> (sections 4.1 and 7).
  Registering a category that is registered fails with Already-Exists.
\<close>

definition RegisterArchiveType ::
  "ArchiveFactory \<Rightarrow> ArchiveIdCode \<Rightarrow> ArchiveManager \<Rightarrow> ResultCode \<times> ArchiveManager" where
  "RegisterArchiveType factory id_code s =
     (case id_code_map s id_code of
        Some registered \<Rightarrow> (Inl AlreadyExists, s)
      | None \<Rightarrow> (RESULT_SUCCESS, s\<lparr>id_code_map := (id_code_map s)(id_code \<mapsto> factory)\<rparr>))"

text \<open>
  Modelled from the spec: a factory as construction makes it, with no application
  bound (section 4.1).
\<close>

definition new_factory :: "ArchiveIdCode \<Rightarrow> ArchiveFactory" where
  "new_factory id_code = \<lparr>factory_id_code = id_code, ncch_data = None\<rparr>"

text \<open>
  Modelled from the spec: the body of \<open>RegisterArchiveTypes\<close>, which registers one
  factory for each known category (section 2).
\<close>

definition RegisterArchiveTypes :: "ArchiveManager \<Rightarrow> ArchiveManager" where
  "RegisterArchiveTypes s =
     fold (\<lambda>id_code s'. snd (RegisterArchiveType (new_factory id_code) id_code s'))
       ArchiveIdCode_values s"

text \<open>
  Modelled from the spec: the body of the constructor. The registry is built once,
  the handle table is empty, and the counter is 1 as the header initialises it; the
  storage is what the installation holds at that time.
\<close>

definition new_ArchiveManager ::
  "(Location \<rightharpoonup> Volume) \<Rightarrow> (MediaType \<times> u32 \<times> u32 \<rightharpoonup> u8 list \<times> ArchiveFormatInfo)
     \<Rightarrow> (u32 \<times> u32) set \<Rightarrow> ArchiveManager" where
  "new_ArchiveManager storage ext system =
     RegisterArchiveTypes
       \<lparr>id_code_map = Map.empty, handle_map = Map.empty, next_handle = 1,
        archives = storage, ext_savedata = ext, system_savedata = system\<rparr>"

text \<open>
  Modelled from the spec: the body of \<open>OpenArchive\<close> (section 4.2). The category is
  resolved in the registry, Not-Found if it is not registered; the path goes to the
  factory; on its success the next handle value is taken, the backend entered under
  it and the handle returned. No handle is allocated on a failure. The counter is
  the \<open>u64\<close> of the header and is incremented as one; the specification does not say
  what an open does once the counter has reached its last value.
\<close>

definition OpenArchive ::
  "ArchiveIdCode \<Rightarrow> Path \<Rightarrow> ArchiveManager \<Rightarrow> ArchiveHandle ResultVal \<times> ArchiveManager" where
  "OpenArchive id_code archive_path s =
     (case id_code_map s id_code of
        None \<Rightarrow> (Inl NotFound, s)
      | Some factory \<Rightarrow>
          (case Factory_Open factory archive_path (archives s) of
             Inl e \<Rightarrow> (Inl e, s)
           | Inr backend \<Rightarrow>
               (Inr (next_handle s),
                s\<lparr>handle_map := (handle_map s)(next_handle s \<mapsto> backend),
                  next_handle := next_handle s + 1\<rparr>)))"

text \<open>
  Modelled from the spec: the body of \<open>CloseArchive\<close> (section 4.3), which removes
  and releases the backend of the handle and fails with Not-Found for a handle that
  is unknown or closed.
\<close>

definition CloseArchive :: "ArchiveHandle \<Rightarrow> ArchiveManager \<Rightarrow> ResultCode \<times> ArchiveManager" where
  "CloseArchive handle s =
     (case GetArchive handle s of
        None \<Rightarrow> (Inl NotFound, s)
      | Some archive \<Rightarrow> (RESULT_SUCCESS, s\<lparr>handle_map := (handle_map s)(handle := None)\<rparr>))"

text \<open>
  Modelled from the spec: a backend reading and a backend changing the storage
  location it is bound to; the backend's result is passed on as it is (section 4.4).
\<close>

definition read_volume ::
  "ArchiveBackend \<Rightarrow> (Volume \<Rightarrow> 'a ResultVal) \<Rightarrow> ArchiveManager \<Rightarrow> 'a ResultVal \<times> ArchiveManager" where
  "read_volume archive f s =
     (case archives s (location archive) of
        None \<Rightarrow> (Inl NotFound, s)
      | Some v \<Rightarrow> (f v, s))"

text \<open>
  Modelled from the spec: see \<open>read_volume\<close>.
\<close>

definition write_volume ::
  "ArchiveBackend \<Rightarrow> (Volume \<Rightarrow> Volume ResultVal) \<Rightarrow> ArchiveManager \<Rightarrow> ResultCode \<times> ArchiveManager" where
  "write_volume archive f s =
     (case archives s (location archive) of
        None \<Rightarrow> (Inl NotFound, s)
      | Some v \<Rightarrow>
          (case f v of
             Inl e \<Rightarrow> (Inl e, s)
           | Inr v' \<Rightarrow> (RESULT_SUCCESS, s\<lparr>archives := (archives s)(location archive \<mapsto> v')\<rparr>)))"

text \<open>
  Modelled from the spec: the body of \<open>OpenFileFromArchive\<close> (section 4.4). The handle is
  resolved, Not-Found if it is not; path and mode goes to the backend unchanged.
\<close>

definition OpenFileFromArchive ::
  "ArchiveHandle \<Rightarrow> Path \<Rightarrow> Mode \<Rightarrow> ArchiveManager \<Rightarrow> File ResultVal \<times> ArchiveManager" where
  "OpenFileFromArchive archive_handle path mode s =
     (case GetArchive archive_handle s of
        None \<Rightarrow> (Inl NotFound, s)
      | Some archive \<Rightarrow> read_volume archive (Volume_OpenFile (location archive) path mode) s)"

text \<open>
  Modelled from the spec: the body of \<open>DeleteFileFromArchive\<close> (section 4.4). The handle is
  resolved, Not-Found if it is not; the path goes to the backend unchanged.
\<close>

definition DeleteFileFromArchive ::
  "ArchiveHandle \<Rightarrow> Path \<Rightarrow> ArchiveManager \<Rightarrow> ResultCode \<times> ArchiveManager" where
  "DeleteFileFromArchive archive_handle path s =
     (case GetArchive archive_handle s of
        None \<Rightarrow> (Inl NotFound, s)
      | Some archive \<Rightarrow> write_volume archive (Volume_DeleteFile path) s)"

text \<open>
  Modelled from the spec: the body of \<open>DeleteDirectoryFromArchive\<close> (section 4.4). The handle is
  resolved, Not-Found if it is not; the path goes to the backend unchanged.
\<close>

definition DeleteDirectoryFromArchive ::
  "ArchiveHandle \<Rightarrow> Path \<Rightarrow> ArchiveManager \<Rightarrow> ResultCode \<times> ArchiveManager" where
  "DeleteDirectoryFromArchive archive_handle path s =
     (case GetArchive archive_handle s of
        None \<Rightarrow> (Inl NotFound, s)
      | Some archive \<Rightarrow> write_volume archive (Volume_DeleteDirectory path) s)"

text \<open>
  Modelled from the spec: the body of \<open>DeleteDirectoryRecursivelyFromArchive\<close> (section 4.4). The handle is
  resolved, Not-Found if it is not; the path goes to the backend unchanged.
\<close>

definition DeleteDirectoryRecursivelyFromArchive ::
  "ArchiveHandle \<Rightarrow> Path \<Rightarrow> ArchiveManager \<Rightarrow> ResultCode \<times> ArchiveManager" where
  "DeleteDirectoryRecursivelyFromArchive archive_handle path s =
     (case GetArchive archive_handle s of
        None \<Rightarrow> (Inl NotFound, s)
      | Some archive \<Rightarrow> write_volume archive (Volume_DeleteDirectoryRecursively path) s)"

text \<open>
  Modelled from the spec: the body of \<open>CreateFileInArchive\<close> (section 4.4). The handle is
  resolved, Not-Found if it is not; path and size goes to the backend unchanged.
\<close>

definition CreateFileInArchive ::
  "ArchiveHandle \<Rightarrow> Path \<Rightarrow> u64 \<Rightarrow> ArchiveManager \<Rightarrow> ResultCode \<times> ArchiveManager" where
  "CreateFileInArchive archive_handle path file_size s =
     (case GetArchive archive_handle s of
        None \<Rightarrow> (Inl NotFound, s)
      | Some archive \<Rightarrow> write_volume archive (Volume_CreateFile path file_size) s)"

text \<open>
  Modelled from the spec: the body of \<open>CreateDirectoryFromArchive\<close> (section 4.4). The handle is
  resolved, Not-Found if it is not; the path goes to the backend unchanged.
\<close>

definition CreateDirectoryFromArchive ::
  "ArchiveHandle \<Rightarrow> Path \<Rightarrow> ArchiveManager \<Rightarrow> ResultCode \<times> ArchiveManager" where
  "CreateDirectoryFromArchive archive_handle path s =
     (case GetArchive archive_handle s of
        None \<Rightarrow> (Inl NotFound, s)
      | Some archive \<Rightarrow> write_volume archive (Volume_CreateDirectory path) s)"

text \<open>
  Modelled from the spec: the body of \<open>OpenDirectoryFromArchive\<close> (section 4.4). The handle is
  resolved, Not-Found if it is not; the path goes to the backend unchanged.
\<close>

definition OpenDirectoryFromArchive ::
  "ArchiveHandle \<Rightarrow> Path \<Rightarrow> ArchiveManager \<Rightarrow> Directory ResultVal \<times> ArchiveManager" where
  "OpenDirectoryFromArchive archive_handle path s =
     (case GetArchive archive_handle s of
        None \<Rightarrow> (Inl NotFound, s)
      | Some archive \<Rightarrow> read_volume archive (Volume_OpenDirectory (location archive) path) s)"

text \<open>
  Modelled from the spec: the body of \<open>GetFreeBytesInArchive\<close> (section 4.4). The handle is
  resolved, Not-Found if it is not; the query goes to the backend unchanged.
\<close>

definition GetFreeBytesInArchive ::
  "ArchiveHandle \<Rightarrow> ArchiveManager \<Rightarrow> u64 ResultVal \<times> ArchiveManager" where
  "GetFreeBytesInArchive archive_handle s =
     (case GetArchive archive_handle s of
        None \<Rightarrow> (Inl NotFound, s)
      | Some archive \<Rightarrow> read_volume archive (\<lambda>v. Inr (Volume_GetFreeBytes v)) s)"

text \<open>
  Modelled from the spec: the backends' rename of a file (section 4.5). With both
  backends on one location the entry moves inside it; otherwise it leaves the source
  location and appears in the destination. A source that is not there is Not-Found,
  a destination that is there already is Already-Exists.
\<close>

definition Backend_RenameFile ::
  "ArchiveBackend \<Rightarrow> Path \<Rightarrow> ArchiveBackend \<Rightarrow> Path \<Rightarrow> ArchiveManager
     \<Rightarrow> ResultCode \<times> ArchiveManager" where
  "Backend_RenameFile src src_path dest dest_path s =
     (case archives s (location src) of
        None \<Rightarrow> (Inl NotFound, s)
      | Some sv \<Rightarrow>
          (case archives s (location dest) of
             None \<Rightarrow> (Inl NotFound, s)
           | Some dv \<Rightarrow>
               (case files sv src_path of
                  None \<Rightarrow> (Inl NotFound, s)
                | Some entry \<Rightarrow>
                    if entry_exists dv dest_path then (Inl AlreadyExists, s)
                    else if location src = location dest then
                      (RESULT_SUCCESS,
                       s\<lparr>archives := (archives s)
                           (location src \<mapsto>
                              sv\<lparr>files := (files sv)(src_path := None, dest_path \<mapsto> entry)\<rparr>)\<rparr>)
                    else
                      (RESULT_SUCCESS,
                       s\<lparr>archives := (archives s)
                           (location src \<mapsto> sv\<lparr>files := (files sv)(src_path := None)\<rparr>,
                            location dest \<mapsto> dv\<lparr>files := (files dv)(dest_path \<mapsto> entry)\<rparr>)\<rparr>))))"

text \<open>
  Modelled from the spec: the backends' rename of a directory (section 4.5), as for a
  file; the directory moves as one entry.
\<close>

definition Backend_RenameDirectory ::
  "ArchiveBackend \<Rightarrow> Path \<Rightarrow> ArchiveBackend \<Rightarrow> Path \<Rightarrow> ArchiveManager
     \<Rightarrow> ResultCode \<times> ArchiveManager" where
  "Backend_RenameDirectory src src_path dest dest_path s =
     (case archives s (location src) of
        None \<Rightarrow> (Inl NotFound, s)
      | Some sv \<Rightarrow>
          (case archives s (location dest) of
             None \<Rightarrow> (Inl NotFound, s)
           | Some dv \<Rightarrow>
               if src_path \<notin> directories sv then (Inl NotFound, s)
               else if entry_exists dv dest_path then (Inl AlreadyExists, s)
               else if location src = location dest then
                 (RESULT_SUCCESS,
                  s\<lparr>archives := (archives s)
                      (location src \<mapsto>
                         sv\<lparr>directories := insert dest_path (directories sv - {src_path})\<rparr>)\<rparr>)
               else
                 (RESULT_SUCCESS,
                  s\<lparr>archives := (archives s)
                      (location src \<mapsto> sv\<lparr>directories := directories sv - {src_path}\<rparr>,
                       location dest \<mapsto> dv\<lparr>directories := insert dest_path (directories dv)\<rparr>)\<rparr>)))"

text \<open>
  Modelled from the spec: the body of \<open>RenameFileBetweenArchives\<close> (section 4.5).
  Source and destination handle are resolved, Not-Found if either is not, and both
  endpoints go to the backends.
\<close>

definition RenameFileBetweenArchives ::
  "ArchiveHandle \<Rightarrow> Path \<Rightarrow> ArchiveHandle \<Rightarrow> Path \<Rightarrow> ArchiveManager
     \<Rightarrow> ResultCode \<times> ArchiveManager" where
  "RenameFileBetweenArchives src_archive_handle src_path dest_archive_handle dest_path s =
     (case GetArchive src_archive_handle s of
        None \<Rightarrow> (Inl NotFound, s)
      | Some src_archive \<Rightarrow>
          (case GetArchive dest_archive_handle s of
             None \<Rightarrow> (Inl NotFound, s)
           | Some dest_archive \<Rightarrow>
               Backend_RenameFile src_archive src_path dest_archive dest_path s))"

text \<open>
  Modelled from the spec: the body of \<open>RenameDirectoryBetweenArchives\<close>
  (section 4.5), as for a file.
\<close>

definition RenameDirectoryBetweenArchives ::
  "ArchiveHandle \<Rightarrow> Path \<Rightarrow> ArchiveHandle \<Rightarrow> Path \<Rightarrow> ArchiveManager
     \<Rightarrow> ResultCode \<times> ArchiveManager" where
  "RenameDirectoryBetweenArchives src_archive_handle src_path dest_archive_handle dest_path s =
     (case GetArchive src_archive_handle s of
        None \<Rightarrow> (Inl NotFound, s)
      | Some src_archive \<Rightarrow>
          (case GetArchive dest_archive_handle s of
             None \<Rightarrow> (Inl NotFound, s)
           | Some dest_archive \<Rightarrow>
               Backend_RenameDirectory src_archive src_path dest_archive dest_path s))"

text \<open>
  Modelled from the spec: the body of \<open>FormatArchive\<close> (section 4.6), by category and
  path through the factory, with no handle; a category that is not registered is
  Not-Found.
\<close>

definition FormatArchive ::
  "ArchiveIdCode \<Rightarrow> ArchiveFormatInfo \<Rightarrow> Path \<Rightarrow> ArchiveManager \<Rightarrow> ResultCode \<times> ArchiveManager" where
  "FormatArchive id_code info path s =
     (case id_code_map s id_code of
        None \<Rightarrow> (Inl NotFound, s)
      | Some factory \<Rightarrow>
          (case Factory_Format factory path info (archives s) of
             Inl e \<Rightarrow> (Inl e, s)
           | Inr storage \<Rightarrow> (RESULT_SUCCESS, s\<lparr>archives := storage\<rparr>)))"

text \<open>
  Modelled from the spec: the body of \<open>GetArchiveFormatInfo\<close> (section 4.6), by
  category and path through the factory, with no handle.
\<close>

definition GetArchiveFormatInfo ::
  "ArchiveIdCode \<Rightarrow> Path \<Rightarrow> ArchiveManager \<Rightarrow> ArchiveFormatInfo ResultVal \<times> ArchiveManager" where
  "GetArchiveFormatInfo id_code archive_path s =
     (case id_code_map s id_code of
        None \<Rightarrow> (Inl NotFound, s)
      | Some factory \<Rightarrow> (Factory_GetFormatInfo factory archive_path (archives s), s))"

text \<open>
  Modelled from the spec: the body of \<open>CreateExtSaveData\<close> (sections 2 and 4.7). It
  goes through the factory of the extended save data category and names the location
  by medium, high and low word; a location that exists is Already-Exists.
\<close>

definition CreateExtSaveData ::
  "MediaType \<Rightarrow> u32 \<Rightarrow> u32 \<Rightarrow> u8 list \<Rightarrow> ArchiveFormatInfo \<Rightarrow> ArchiveManager
     \<Rightarrow> ResultCode \<times> ArchiveManager" where
  "CreateExtSaveData media_type high low smdh_icon info s =
     (case id_code_map s ExtSaveData of
        None \<Rightarrow> (Inl NotFound, s)
      | Some factory \<Rightarrow>
          (case ext_savedata s (media_type, high, low) of
             Some existing \<Rightarrow> (Inl AlreadyExists, s)
           | None \<Rightarrow>
               (RESULT_SUCCESS,
                s\<lparr>ext_savedata :=
                    (ext_savedata s)((media_type, high, low) \<mapsto> (smdh_icon, info))\<rparr>)))"

text \<open>
  Modelled from the spec: the body of \<open>DeleteExtSaveData\<close> (section 4.7), which
  removes the whole location; a location that does not exist is Not-Found.
\<close>

definition DeleteExtSaveData ::
  "MediaType \<Rightarrow> u32 \<Rightarrow> u32 \<Rightarrow> ArchiveManager \<Rightarrow> ResultCode \<times> ArchiveManager" where
  "DeleteExtSaveData media_type high low s =
     (case id_code_map s ExtSaveData of
        None \<Rightarrow> (Inl NotFound, s)
      | Some factory \<Rightarrow>
          (case ext_savedata s (media_type, high, low) of
             None \<Rightarrow> (Inl NotFound, s)
           | Some existing \<Rightarrow>
               (RESULT_SUCCESS,
                s\<lparr>ext_savedata := (ext_savedata s)((media_type, high, low) := None)\<rparr>)))"

text \<open>
  Modelled from the spec: the body of \<open>DeleteSystemSaveData\<close> (section 4.7). The
  header declares it with the high and the low word and no medium; a folder that
  does not exist is Not-Found.
\<close>

definition DeleteSystemSaveData ::
  "u32 \<Rightarrow> u32 \<Rightarrow> ArchiveManager \<Rightarrow> ResultCode \<times> ArchiveManager" where
  "DeleteSystemSaveData high low s =
     (case id_code_map s SystemSaveData of
        None \<Rightarrow> (Inl NotFound, s)
      | Some factory \<Rightarrow>
          if (high, low) \<in> system_savedata s
          then (RESULT_SUCCESS, s\<lparr>system_savedata := system_savedata s - {(high, low)}\<rparr>)
          else (Inl NotFound, s))"

text \<open>
  Modelled from the spec: the body of \<open>CreateSystemSaveData\<close> (section 4.7), with
  the high and the low word as the header declares it; a folder that exists is
  Already-Exists.
\<close>

definition CreateSystemSaveData ::
  "u32 \<Rightarrow> u32 \<Rightarrow> ArchiveManager \<Rightarrow> ResultCode \<times> ArchiveManager" where
  "CreateSystemSaveData high low s =
     (case id_code_map s SystemSaveData of
        None \<Rightarrow> (Inl NotFound, s)
      | Some factory \<Rightarrow>
          if (high, low) \<in> system_savedata s
          then (Inl AlreadyExists, s)
          else (RESULT_SUCCESS, s\<lparr>system_savedata := insert (high, low) (system_savedata s)\<rparr>))"

text \<open>
  Modelled from the spec: the body of \<open>RegisterSelfNCCH\<close> (section 4.8), which binds
  the factory of the self-container category to the application, or binds it anew.
\<close>

definition RegisterSelfNCCH :: "AppLoader \<Rightarrow> ArchiveManager \<Rightarrow> ArchiveManager" where
  "RegisterSelfNCCH app_loader s =
     (case id_code_map s SelfNCCH of
        None \<Rightarrow> s
      | Some factory \<Rightarrow>
          s\<lparr>id_code_map := (id_code_map s)(SelfNCCH \<mapsto> factory\<lparr>ncch_data := Some app_loader\<rparr>)\<rparr>)"

subsection \<open>The public operations as calls\<close>

text \<open>
  One constructor for each public member function of the class, in the order of the
  header, with the function's parameters; a call returns the function's result and
  the manager after it.
\<close>

datatype Operation =
    Call_OpenArchive ArchiveIdCode Path
  | Call_CloseArchive ArchiveHandle
  | Call_OpenFileFromArchive ArchiveHandle Path Mode
  | Call_DeleteFileFromArchive ArchiveHandle Path
  | Call_RenameFileBetweenArchives ArchiveHandle Path ArchiveHandle Path
  | Call_DeleteDirectoryFromArchive ArchiveHandle Path
  | Call_DeleteDirectoryRecursivelyFromArchive ArchiveHandle Path
  | Call_CreateFileInArchive ArchiveHandle Path u64
  | Call_CreateDirectoryFromArchive ArchiveHandle Path
  | Call_RenameDirectoryBetweenArchives ArchiveHandle Path ArchiveHandle Path
  | Call_OpenDirectoryFromArchive ArchiveHandle Path
  | Call_GetFreeBytesInArchive ArchiveHandle
  | Call_FormatArchive ArchiveIdCode ArchiveFormatInfo Path
  | Call_GetArchiveFormatInfo ArchiveIdCode Path
  | Call_CreateExtSaveData MediaType u32 u32 "u8 list" ArchiveFormatInfo
  | Call_DeleteExtSaveData MediaType u32 u32
  | Call_DeleteSystemSaveData u32 u32
  | Call_CreateSystemSaveData u32 u32
  | Call_RegisterSelfNCCH AppLoader

datatype Reply =
    Handle ArchiveHandle
  | FileObject File
  | DirectoryObject Directory
  | FreeBytes u64
  | FormatInfo ArchiveFormatInfo
  | Done

definition returning ::
  "('a \<Rightarrow> Reply) \<Rightarrow> 'a ResultVal \<times> ArchiveManager \<Rightarrow> Reply ResultVal \<times> ArchiveManager" where
  "returning wrap r = (case fst r of Inl e \<Rightarrow> Inl e | Inr x \<Rightarrow> Inr (wrap x), snd r)"

fun call :: "Operation \<Rightarrow> ArchiveManager \<Rightarrow> Reply ResultVal \<times> ArchiveManager" where
  "call (Call_OpenArchive id_code path) s = returning Handle (OpenArchive id_code path s)"
| "call (Call_CloseArchive h) s = returning (\<lambda>u. Done) (CloseArchive h s)"
| "call (Call_OpenFileFromArchive h path mode) s =
     returning FileObject (OpenFileFromArchive h path mode s)"
| "call (Call_DeleteFileFromArchive h path) s =
     returning (\<lambda>u. Done) (DeleteFileFromArchive h path s)"
| "call (Call_RenameFileBetweenArchives h path h' path') s =
     returning (\<lambda>u. Done) (RenameFileBetweenArchives h path h' path' s)"
| "call (Call_DeleteDirectoryFromArchive h path) s =
     returning (\<lambda>u. Done) (DeleteDirectoryFromArchive h path s)"
| "call (Call_DeleteDirectoryRecursivelyFromArchive h path) s =
     returning (\<lambda>u. Done) (DeleteDirectoryRecursivelyFromArchive h path s)"
| "call (Call_CreateFileInArchive h path file_size) s =
     returning (\<lambda>u. Done) (CreateFileInArchive h path file_size s)"
| "call (Call_CreateDirectoryFromArchive h path) s =
     returning (\<lambda>u. Done) (CreateDirectoryFromArchive h path s)"
| "call (Call_RenameDirectoryBetweenArchives h path h' path') s =
     returning (\<lambda>u. Done) (RenameDirectoryBetweenArchives h path h' path' s)"
| "call (Call_OpenDirectoryFromArchive h path) s =
     returning DirectoryObject (OpenDirectoryFromArchive h path s)"
| "call (Call_GetFreeBytesInArchive h) s = returning FreeBytes (GetFreeBytesInArchive h s)"
| "call (Call_FormatArchive id_code info path) s =
     returning (\<lambda>u. Done) (FormatArchive id_code info path s)"
| "call (Call_GetArchiveFormatInfo id_code path) s =
     returning FormatInfo (GetArchiveFormatInfo id_code path s)"
| "call (Call_CreateExtSaveData media_type high low icon info) s =
     returning (\<lambda>u. Done) (CreateExtSaveData media_type high low icon info s)"
| "call (Call_DeleteExtSaveData media_type high low) s =
     returning (\<lambda>u. Done) (DeleteExtSaveData media_type high low s)"
| "call (Call_DeleteSystemSaveData high low) s =
     returning (\<lambda>u. Done) (DeleteSystemSaveData high low s)"
| "call (Call_CreateSystemSaveData high low) s =
     returning (\<lambda>u. Done) (CreateSystemSaveData high low s)"
| "call (Call_RegisterSelfNCCH app_loader) s = (Inr Done, RegisterSelfNCCH app_loader s)"

text \<open>A sequence of calls, in call order: the replies and the manager after the last.\<close>

fun run :: "Operation list \<Rightarrow> ArchiveManager \<Rightarrow> Reply ResultVal list \<times> ArchiveManager" where
  "run [] s = ([], s)"
| "run (op # ops) s =
     (case call op s of (r, s') \<Rightarrow> (case run ops s' of (rs, s'') \<Rightarrow> (r # rs, s'')))"

subsection \<open>Identifiers and handle tables\<close>

text \<open>
  The words by which a save-data lifecycle call names the location it works on, as
  the header declares the parameters: \<open>media_type\<close>, \<open>high\<close> and \<open>low\<close> for
  \<open>CreateExtSaveData\<close> and \<open>DeleteExtSaveData\<close>; \<open>high\<close> and \<open>low\<close> for
  \<open>DeleteSystemSaveData\<close> and \<open>CreateSystemSaveData\<close>. No other call names such a
  location.
\<close>

fun identifier_words :: "Operation \<Rightarrow> u32 list" where
  "identifier_words (Call_CreateExtSaveData media_type high low icon info) =
     [media_type, high, low]"
| "identifier_words (Call_DeleteExtSaveData media_type high low) = [media_type, high, low]"
| "identifier_words (Call_DeleteSystemSaveData high low) = [high, low]"
| "identifier_words (Call_CreateSystemSaveData high low) = [high, low]"
| "identifier_words op = []"

text \<open>Whether a call is \<open>CreateExtSaveData\<close> with a given medium, high and low word.\<close>

fun creates_ext_savedata :: "MediaType \<Rightarrow> u32 \<Rightarrow> u32 \<Rightarrow> Operation \<Rightarrow> bool" where
  "creates_ext_savedata m high low (Call_CreateExtSaveData m' high' low' icon info) =
     (m' = m \<and> high' = high \<and> low' = low)"
| "creates_ext_savedata m high low op = False"

text \<open>The manager with another handle table and counter, everything else as it is.\<close>

definition with_handle_table ::
  "(ArchiveHandle \<rightharpoonup> ArchiveBackend) \<Rightarrow> ArchiveHandle \<Rightarrow> ArchiveManager \<Rightarrow> ArchiveManager" where
  "with_handle_table table counter s = s\<lparr>handle_map := table, next_handle := counter\<rparr>"

subsection \<open>The public member functions by name\<close>

text \<open>
  The member functions the header declares in the \<open>public\<close> section of the class,
  after the constructor, in declaration order; the name of the member function a call
  stands for; and the operations that section 4 of the specification enumerates, in
  the order of its subsections 4.2 to 4.8.
\<close>

definition public_operations :: "string list" where
  "public_operations =
     [''OpenArchive'', ''CloseArchive'', ''OpenFileFromArchive'', ''DeleteFileFromArchive'',
      ''RenameFileBetweenArchives'', ''DeleteDirectoryFromArchive'',
      ''DeleteDirectoryRecursivelyFromArchive'', ''CreateFileInArchive'',
      ''CreateDirectoryFromArchive'', ''RenameDirectoryBetweenArchives'',
      ''OpenDirectoryFromArchive'', ''GetFreeBytesInArchive'', ''FormatArchive'',
      ''GetArchiveFormatInfo'', ''CreateExtSaveData'', ''DeleteExtSaveData'',
      ''DeleteSystemSaveData'', ''CreateSystemSaveData'', ''RegisterSelfNCCH'']"

fun operation_name :: "Operation \<Rightarrow> string" where
  "operation_name (Call_OpenArchive id_code path) = ''OpenArchive''"
| "operation_name (Call_CloseArchive h) = ''CloseArchive''"
| "operation_name (Call_OpenFileFromArchive h path mode) = ''OpenFileFromArchive''"
| "operation_name (Call_DeleteFileFromArchive h path) = ''DeleteFileFromArchive''"
| "operation_name (Call_RenameFileBetweenArchives h path h' path') =
     ''RenameFileBetweenArchives''"
| "operation_name (Call_DeleteDirectoryFromArchive h path) = ''DeleteDirectoryFromArchive''"
| "operation_name (Call_DeleteDirectoryRecursivelyFromArchive h path) =
     ''DeleteDirectoryRecursivelyFromArchive''"
| "operation_name (Call_CreateFileInArchive h path file_size) = ''CreateFileInArchive''"
| "operation_name (Call_CreateDirectoryFromArchive h path) = ''CreateDirectoryFromArchive''"
| "operation_name (Call_RenameDirectoryBetweenArchives h path h' path') =
     ''RenameDirectoryBetweenArchives''"
| "operation_name (Call_OpenDirectoryFromArchive h path) = ''OpenDirectoryFromArchive''"
| "operation_name (Call_GetFreeBytesInArchive h) = ''GetFreeBytesInArchive''"
| "operation_name (Call_FormatArchive id_code info path) = ''FormatArchive''"
| "operation_name (Call_GetArchiveFormatInfo id_code path) = ''GetArchiveFormatInfo''"
| "operation_name (Call_CreateExtSaveData media_type high low icon info) =
     ''CreateExtSaveData''"
| "operation_name (Call_DeleteExtSaveData media_type high low) = ''DeleteExtSaveData''"
| "operation_name (Call_DeleteSystemSaveData high low) = ''DeleteSystemSaveData''"
| "operation_name (Call_CreateSystemSaveData high low) = ''CreateSystemSaveData''"
| "operation_name (Call_RegisterSelfNCCH app_loader) = ''RegisterSelfNCCH''"

definition specified_operations :: "string list" where
  "specified_operations =
     [''OpenArchive'', ''CloseArchive'',
      ''OpenFileFromArchive'', ''DeleteFileFromArchive'', ''CreateFileInArchive'',
      ''OpenDirectoryFromArchive'', ''CreateDirectoryFromArchive'',
      ''DeleteDirectoryFromArchive'', ''DeleteDirectoryRecursivelyFromArchive'',
      ''GetFreeBytesInArchive'',
      ''RenameFileBetweenArchives'', ''RenameDirectoryBetweenArchives'',
      ''FormatArchive'', ''GetArchiveFormatInfo'',
      ''CreateExtSaveData'', ''DeleteExtSaveData'', ''CreateSystemSaveData'',
      ''DeleteSystemSaveData'',
      ''RegisterSelfNCCH'']"

subsection \<open>A small installation\<close>

text \<open>
  Storage with a removable card and formatted save data, one extended save data
  location and one system save data folder, and the manager constructed on it.
\<close>

definition card_info :: ArchiveFormatInfo where
  "card_info =
     \<lparr>total_size = 0x1000, number_directories = 4, number_files = 8, duplicate_data = False\<rparr>"

definition card_storage :: "Location \<rightharpoonup> Volume" where
  "card_storage =
     [(SDMC, EmptyPath) \<mapsto> formatted_Volume card_info,
      (SaveData, EmptyPath) \<mapsto> formatted_Volume card_info]"

definition card_manager :: ArchiveManager where
  "card_manager =
     new_ArchiveManager card_storage
       [(MediaType_SDMC, 0, 1) \<mapsto> ([], card_info)] {(0, 1)}"

text \<open>
  The walk-through of the specification on this installation: open the removable
  card, open the save data, close the first handle, then delete a file through the
  closed and through the open handle; and the manager after the two opens.
\<close>

definition scenario :: "Operation list" where
  "scenario =
     [Call_OpenArchive SDMC EmptyPath, Call_OpenArchive SaveData EmptyPath,
      Call_CloseArchive 1,
      Call_DeleteFileFromArchive 1 (TextPath ''/x''),
      Call_DeleteFileFromArchive 2 (TextPath ''/x'')]"

definition two_archives :: ArchiveManager where
  "two_archives =
     snd (run [Call_OpenArchive SDMC EmptyPath, Call_OpenArchive SaveData EmptyPath]
            card_manager)"

definition larger_info :: ArchiveFormatInfo where
  "larger_info =
     \<lparr>total_size = 0x8000, number_directories = 16, number_files = 32, duplicate_data = True\<rparr>"

section \<open>Supporting lemmas\<close>

subsection \<open>Results of calls\<close>

lemmas handle_operation_defs =
  CloseArchive_def OpenFileFromArchive_def DeleteFileFromArchive_def
  DeleteDirectoryFromArchive_def DeleteDirectoryRecursivelyFromArchive_def
  CreateFileInArchive_def CreateDirectoryFromArchive_def OpenDirectoryFromArchive_def
  GetFreeBytesInArchive_def RenameFileBetweenArchives_def RenameDirectoryBetweenArchives_def

lemmas category_operation_defs =
  FormatArchive_def GetArchiveFormatInfo_def CreateExtSaveData_def DeleteExtSaveData_def
  DeleteSystemSaveData_def CreateSystemSaveData_def

lemma snd_returning [simp]: "snd (returning wrap r) = snd r"
  by (simp add: returning_def)

lemma isl_returning [simp]: "isl (fst (returning wrap r)) = isl (fst r)"
  by (simp add: returning_def split: sum.splits)

subsection \<open>What an operation leaves alone\<close>

lemma read_volume_state [simp]: "snd (read_volume archive f s) = s"
  by (simp add: read_volume_def split: option.splits)

lemma write_volume_frame [simp]:
  "id_code_map (snd (write_volume archive f s)) = id_code_map s"
  "handle_map (snd (write_volume archive f s)) = handle_map s"
  "next_handle (snd (write_volume archive f s)) = next_handle s"
  "ext_savedata (snd (write_volume archive f s)) = ext_savedata s"
  "system_savedata (snd (write_volume archive f s)) = system_savedata s"
  by (simp_all add: write_volume_def split: option.splits sum.splits)

lemma Backend_RenameFile_frame [simp]:
  "id_code_map (snd (Backend_RenameFile a p b q s)) = id_code_map s"
  "handle_map (snd (Backend_RenameFile a p b q s)) = handle_map s"
  "next_handle (snd (Backend_RenameFile a p b q s)) = next_handle s"
  "ext_savedata (snd (Backend_RenameFile a p b q s)) = ext_savedata s"
  "system_savedata (snd (Backend_RenameFile a p b q s)) = system_savedata s"
  by (simp_all add: Backend_RenameFile_def split: option.splits)

lemma Backend_RenameDirectory_frame [simp]:
  "id_code_map (snd (Backend_RenameDirectory a p b q s)) = id_code_map s"
  "handle_map (snd (Backend_RenameDirectory a p b q s)) = handle_map s"
  "next_handle (snd (Backend_RenameDirectory a p b q s)) = next_handle s"
  "ext_savedata (snd (Backend_RenameDirectory a p b q s)) = ext_savedata s"
  "system_savedata (snd (Backend_RenameDirectory a p b q s)) = system_savedata s"
  by (simp_all add: Backend_RenameDirectory_def split: option.splits)

lemma handle_operations_registry [simp]:
  "id_code_map (snd (CloseArchive h s)) = id_code_map s"
  "id_code_map (snd (OpenFileFromArchive h path mode s)) = id_code_map s"
  "id_code_map (snd (DeleteFileFromArchive h path s)) = id_code_map s"
  "id_code_map (snd (DeleteDirectoryFromArchive h path s)) = id_code_map s"
  "id_code_map (snd (DeleteDirectoryRecursivelyFromArchive h path s)) = id_code_map s"
  "id_code_map (snd (CreateFileInArchive h path file_size s)) = id_code_map s"
  "id_code_map (snd (CreateDirectoryFromArchive h path s)) = id_code_map s"
  "id_code_map (snd (OpenDirectoryFromArchive h path s)) = id_code_map s"
  "id_code_map (snd (GetFreeBytesInArchive h s)) = id_code_map s"
  "id_code_map (snd (RenameFileBetweenArchives h path h' path' s)) = id_code_map s"
  "id_code_map (snd (RenameDirectoryBetweenArchives h path h' path' s)) = id_code_map s"
  by (simp_all add: handle_operation_defs split: option.splits)

lemma handle_operations_counter [simp]:
  "next_handle (snd (CloseArchive h s)) = next_handle s"
  "next_handle (snd (OpenFileFromArchive h path mode s)) = next_handle s"
  "next_handle (snd (DeleteFileFromArchive h path s)) = next_handle s"
  "next_handle (snd (DeleteDirectoryFromArchive h path s)) = next_handle s"
  "next_handle (snd (DeleteDirectoryRecursivelyFromArchive h path s)) = next_handle s"
  "next_handle (snd (CreateFileInArchive h path file_size s)) = next_handle s"
  "next_handle (snd (CreateDirectoryFromArchive h path s)) = next_handle s"
  "next_handle (snd (OpenDirectoryFromArchive h path s)) = next_handle s"
  "next_handle (snd (GetFreeBytesInArchive h s)) = next_handle s"
  "next_handle (snd (RenameFileBetweenArchives h path h' path' s)) = next_handle s"
  "next_handle (snd (RenameDirectoryBetweenArchives h path h' path' s)) = next_handle s"
  by (simp_all add: handle_operation_defs split: option.splits)

lemma handle_operations_table [simp]:
  "handle_map (snd (OpenFileFromArchive h path mode s)) = handle_map s"
  "handle_map (snd (DeleteFileFromArchive h path s)) = handle_map s"
  "handle_map (snd (DeleteDirectoryFromArchive h path s)) = handle_map s"
  "handle_map (snd (DeleteDirectoryRecursivelyFromArchive h path s)) = handle_map s"
  "handle_map (snd (CreateFileInArchive h path file_size s)) = handle_map s"
  "handle_map (snd (CreateDirectoryFromArchive h path s)) = handle_map s"
  "handle_map (snd (OpenDirectoryFromArchive h path s)) = handle_map s"
  "handle_map (snd (GetFreeBytesInArchive h s)) = handle_map s"
  "handle_map (snd (RenameFileBetweenArchives h path h' path' s)) = handle_map s"
  "handle_map (snd (RenameDirectoryBetweenArchives h path h' path' s)) = handle_map s"
  by (simp_all add: handle_operation_defs split: option.splits)

lemma category_operations_frame [simp]:
  "id_code_map (snd (FormatArchive c info path s)) = id_code_map s"
  "handle_map (snd (FormatArchive c info path s)) = handle_map s"
  "next_handle (snd (FormatArchive c info path s)) = next_handle s"
  "snd (GetArchiveFormatInfo c path s) = s"
  "id_code_map (snd (CreateExtSaveData m high low icon info s)) = id_code_map s"
  "handle_map (snd (CreateExtSaveData m high low icon info s)) = handle_map s"
  "next_handle (snd (CreateExtSaveData m high low icon info s)) = next_handle s"
  "id_code_map (snd (DeleteExtSaveData m high low s)) = id_code_map s"
  "handle_map (snd (DeleteExtSaveData m high low s)) = handle_map s"
  "next_handle (snd (DeleteExtSaveData m high low s)) = next_handle s"
  "id_code_map (snd (DeleteSystemSaveData high low s)) = id_code_map s"
  "handle_map (snd (DeleteSystemSaveData high low s)) = handle_map s"
  "next_handle (snd (DeleteSystemSaveData high low s)) = next_handle s"
  "id_code_map (snd (CreateSystemSaveData high low s)) = id_code_map s"
  "handle_map (snd (CreateSystemSaveData high low s)) = handle_map s"
  "next_handle (snd (CreateSystemSaveData high low s)) = next_handle s"
  by (simp_all add: category_operation_defs split: option.splits sum.splits)

lemma RegisterSelfNCCH_frame [simp]:
  "handle_map (RegisterSelfNCCH app s) = handle_map s"
  "next_handle (RegisterSelfNCCH app s) = next_handle s"
  "dom (id_code_map (RegisterSelfNCCH app s)) = dom (id_code_map s)"
  "(id_code_map (RegisterSelfNCCH app s))(SelfNCCH := None) = (id_code_map s)(SelfNCCH := None)"
  by (auto simp add: RegisterSelfNCCH_def split: option.splits)

lemma OpenArchive_frame [simp]:
  "id_code_map (snd (OpenArchive c path s)) = id_code_map s"
  "archives (snd (OpenArchive c path s)) = archives s"
  "ext_savedata (snd (OpenArchive c path s)) = ext_savedata s"
  "system_savedata (snd (OpenArchive c path s)) = system_savedata s"
  by (simp_all add: OpenArchive_def split: option.splits sum.splits)

lemma CloseArchive_frame [simp]:
  "archives (snd (CloseArchive h s)) = archives s"
  "ext_savedata (snd (CloseArchive h s)) = ext_savedata s"
  "system_savedata (snd (CloseArchive h s)) = system_savedata s"
  by (simp_all add: CloseArchive_def split: option.splits)

lemma handle_operations_ext_savedata [simp]:
  "ext_savedata (snd (OpenFileFromArchive h path mode s)) = ext_savedata s"
  "ext_savedata (snd (DeleteFileFromArchive h path s)) = ext_savedata s"
  "ext_savedata (snd (DeleteDirectoryFromArchive h path s)) = ext_savedata s"
  "ext_savedata (snd (DeleteDirectoryRecursivelyFromArchive h path s)) = ext_savedata s"
  "ext_savedata (snd (CreateFileInArchive h path file_size s)) = ext_savedata s"
  "ext_savedata (snd (CreateDirectoryFromArchive h path s)) = ext_savedata s"
  "ext_savedata (snd (OpenDirectoryFromArchive h path s)) = ext_savedata s"
  "ext_savedata (snd (GetFreeBytesInArchive h s)) = ext_savedata s"
  "ext_savedata (snd (RenameFileBetweenArchives h path h' path' s)) = ext_savedata s"
  "ext_savedata (snd (RenameDirectoryBetweenArchives h path h' path' s)) = ext_savedata s"
  by (simp_all add: handle_operation_defs split: option.splits)

lemma category_operations_ext_savedata [simp]:
  "ext_savedata (snd (FormatArchive c info path s)) = ext_savedata s"
  "ext_savedata (snd (DeleteSystemSaveData high low s)) = ext_savedata s"
  "ext_savedata (snd (CreateSystemSaveData high low s)) = ext_savedata s"
  "ext_savedata (RegisterSelfNCCH app s) = ext_savedata s"
  by (simp_all add: category_operation_defs RegisterSelfNCCH_def split: option.splits sum.splits)

lemma ext_savedata_stays_absent:
  "ext_savedata s k = None \<Longrightarrow> ext_savedata (snd (DeleteExtSaveData m high low s)) k = None"
  "ext_savedata s k = None \<Longrightarrow> k \<noteq> (m, high, low) \<Longrightarrow>
     ext_savedata (snd (CreateExtSaveData m high low icon info s)) k = None"
  by (simp_all add: category_operation_defs split: option.splits)

subsection \<open>Failed calls\<close>

lemma Backend_Rename_failed:
  "isl (fst (Backend_RenameFile a p b q s)) \<Longrightarrow> snd (Backend_RenameFile a p b q s) = s"
  "isl (fst (Backend_RenameDirectory a p b q s)) \<Longrightarrow> snd (Backend_RenameDirectory a p b q s) = s"
  by (auto simp add: Backend_RenameFile_def Backend_RenameDirectory_def
      split: option.splits if_splits)

lemma write_volume_isl: "isl (fst (write_volume archive f s)) \<Longrightarrow> snd (write_volume archive f s) = s"
  by (simp add: write_volume_def split: option.splits sum.splits)

lemma handle_operations_failed:
  "isl (fst (CloseArchive h s)) \<Longrightarrow> snd (CloseArchive h s) = s"
  "snd (OpenFileFromArchive h path mode s) = s"
  "isl (fst (DeleteFileFromArchive h path s)) \<Longrightarrow> snd (DeleteFileFromArchive h path s) = s"
  "isl (fst (DeleteDirectoryFromArchive h path s)) \<Longrightarrow> snd (DeleteDirectoryFromArchive h path s) = s"
  "isl (fst (DeleteDirectoryRecursivelyFromArchive h path s)) \<Longrightarrow>
     snd (DeleteDirectoryRecursivelyFromArchive h path s) = s"
  "isl (fst (CreateFileInArchive h path file_size s)) \<Longrightarrow> snd (CreateFileInArchive h path file_size s) = s"
  "isl (fst (CreateDirectoryFromArchive h path s)) \<Longrightarrow> snd (CreateDirectoryFromArchive h path s) = s"
  "snd (OpenDirectoryFromArchive h path s) = s"
  "snd (GetFreeBytesInArchive h s) = s"
  "isl (fst (RenameFileBetweenArchives h path h' path' s)) \<Longrightarrow>
     snd (RenameFileBetweenArchives h path h' path' s) = s"
  "isl (fst (RenameDirectoryBetweenArchives h path h' path' s)) \<Longrightarrow>
     snd (RenameDirectoryBetweenArchives h path h' path' s) = s"
  by (simp_all add: handle_operation_defs write_volume_isl Backend_Rename_failed
      split: option.splits)

lemma category_operations_failed:
  "isl (fst (OpenArchive c path s)) \<Longrightarrow> snd (OpenArchive c path s) = s"
  "isl (fst (FormatArchive c info path s)) \<Longrightarrow> snd (FormatArchive c info path s) = s"
  "isl (fst (CreateExtSaveData m high low icon info s)) \<Longrightarrow>
     snd (CreateExtSaveData m high low icon info s) = s"
  "isl (fst (DeleteExtSaveData m high low s)) \<Longrightarrow> snd (DeleteExtSaveData m high low s) = s"
  "isl (fst (DeleteSystemSaveData high low s)) \<Longrightarrow> snd (DeleteSystemSaveData high low s) = s"
  "isl (fst (CreateSystemSaveData high low s)) \<Longrightarrow> snd (CreateSystemSaveData high low s) = s"
  "isl (fst (RegisterArchiveType factory c s)) \<Longrightarrow> snd (RegisterArchiveType factory c s) = s"
  by (simp_all add: category_operation_defs OpenArchive_def RegisterArchiveType_def
      split: option.splits sum.splits if_splits)

lemma call_failed: "isl (fst (call op s)) \<Longrightarrow> snd (call op s) = s"
  by (cases op) (simp_all add: handle_operations_failed category_operations_failed)

subsection \<open>One call\<close>

lemma call_registry:
  "dom (id_code_map (snd (call op s))) = dom (id_code_map s)"
  "(id_code_map (snd (call op s)))(SelfNCCH := None) = (id_code_map s)(SelfNCCH := None)"
  by (cases op; simp)+

lemma call_ext_savedata_absent:
  assumes "ext_savedata s (m, high, low) = None" and "\<not> creates_ext_savedata m high low op"
  shows "ext_savedata (snd (call op s)) (m, high, low) = None"
  using assms by (cases op) (auto simp add: ext_savedata_stays_absent)

subsection \<open>Sequences of calls\<close>

lemma run_Cons:
  "fst (run (op # ops) s) = fst (call op s) # fst (run ops (snd (call op s)))"
  "snd (run (op # ops) s) = snd (run ops (snd (call op s)))"
  by (simp_all split: prod.splits)

lemma run_registry:
  "dom (id_code_map (snd (run ops s))) = dom (id_code_map s)
   \<and> (id_code_map (snd (run ops s)))(SelfNCCH := None) = (id_code_map s)(SelfNCCH := None)"
proof (induction ops arbitrary: s)
  case Nil
  show ?case by simp
next
  case (Cons op ops)
  from Cons.IH [of "snd (call op s)"] show ?case
    by (simp add: run_Cons call_registry del: run.simps)
qed

lemma run_ext_savedata_absent:
  assumes "ext_savedata s (m, high, low) = None"
    and "\<forall>op \<in> set ops. \<not> creates_ext_savedata m high low op"
  shows "ext_savedata (snd (run ops s)) (m, high, low) = None"
  using assms
proof (induction ops arbitrary: s)
  case Nil
  then show ?case by simp
next
  case (Cons op ops)
  then have "ext_savedata (snd (call op s)) (m, high, low) = None"
    by (simp add: call_ext_savedata_absent del: call.simps)
  with Cons show ?case
    by (simp add: run_Cons del: run.simps call.simps)
qed

subsection \<open>Construction\<close>

lemma RegisterArchiveType_frame [simp]:
  "handle_map (snd (RegisterArchiveType factory c s)) = handle_map s"
  "next_handle (snd (RegisterArchiveType factory c s)) = next_handle s"
  "archives (snd (RegisterArchiveType factory c s)) = archives s"
  "ext_savedata (snd (RegisterArchiveType factory c s)) = ext_savedata s"
  "system_savedata (snd (RegisterArchiveType factory c s)) = system_savedata s"
  by (simp_all add: RegisterArchiveType_def split: option.splits)

lemma register_all_frame:
  "handle_map (fold (\<lambda>c s'. snd (RegisterArchiveType (g c) c s')) cs s) = handle_map s"
  "next_handle (fold (\<lambda>c s'. snd (RegisterArchiveType (g c) c s')) cs s) = next_handle s"
  "archives (fold (\<lambda>c s'. snd (RegisterArchiveType (g c) c s')) cs s) = archives s"
  "ext_savedata (fold (\<lambda>c s'. snd (RegisterArchiveType (g c) c s')) cs s) = ext_savedata s"
  "system_savedata (fold (\<lambda>c s'. snd (RegisterArchiveType (g c) c s')) cs s) = system_savedata s"
  by (induction cs arbitrary: s) simp_all

lemma new_ArchiveManager_fields [simp]:
  "handle_map (new_ArchiveManager storage ext system) = Map.empty"
  "next_handle (new_ArchiveManager storage ext system) = 1"
  "archives (new_ArchiveManager storage ext system) = storage"
  "ext_savedata (new_ArchiveManager storage ext system) = ext"
  "system_savedata (new_ArchiveManager storage ext system) = system"
  by (simp_all add: new_ArchiveManager_def RegisterArchiveTypes_def register_all_frame)

lemma new_ArchiveManager_registry:
  "id_code_map (new_ArchiveManager storage ext system) =
     (\<lambda>c. if c \<in> set ArchiveIdCode_values then Some (new_factory c) else None)"
  by (rule ext)
    (simp add: new_ArchiveManager_def RegisterArchiveTypes_def RegisterArchiveType_def
      ArchiveIdCode_values_def ArchiveIdCode_defs)

subsection \<open>The installation\<close>

lemmas evaluation =
  OpenArchive_def handle_operation_defs category_operation_defs RegisterSelfNCCH_def
  RegisterArchiveType_def GetArchive_def read_volume_def write_volume_def returning_def
  Factory_Open_def Factory_Format_def Factory_GetFormatInfo_def new_factory_def
  save_data_style_def Volume_OpenFile_def Volume_DeleteFile_def Volume_CreateFile_def
  Volume_OpenDirectory_def Volume_CreateDirectory_def Volume_DeleteDirectory_def
  Volume_DeleteDirectoryRecursively_def Volume_GetFreeBytes_def entry_exists_def
  formatted_Volume_def card_manager_def card_storage_def new_ArchiveManager_registry
  ArchiveIdCode_values_def ArchiveIdCode_defs MediaType_defs

text \<open>
The walk-through gives the replies the specification lists for it.
\<close>

lemma scenario_replies:
  "fst (run scenario card_manager) =
     [Inr (Handle 1), Inr (Handle 2), Inr Done, Inl NotFound, Inl NotFound]"
  by (simp add: scenario_def evaluation)

lemma two_archives_fields:
  "handle_map two_archives =
     [1 \<mapsto> \<lparr>location = (SDMC, EmptyPath)\<rparr>, 2 \<mapsto> \<lparr>location = (SaveData, EmptyPath)\<rparr>]"
  "next_handle two_archives = 3"
  "id_code_map two_archives = id_code_map card_manager"
  "archives two_archives = card_storage"
  by (simp_all add: two_archives_def evaluation)

subsection \<open>Format info\<close>

lemma GetArchiveFormatInfo_ignores_handles:
  "fst (GetArchiveFormatInfo c path (s\<lparr>handle_map := table, next_handle := counter\<rparr>)) =
     fst (GetArchiveFormatInfo c path s)"
  by (simp add: GetArchiveFormatInfo_def split: option.splits)

section \<open>The identifiers\<close>

text \<open>
  C4. The archive category codes are the fixed unsigned 32-bit values of the
  enumeration: SelfNCCH 0x00000003, SaveData 0x00000004, ExtSaveData 0x00000006,
  SharedExtSaveData 0x00000007, SystemSaveData 0x00000008, SDMC 0x00000009,
  SDMCWriteOnly 0x0000000A, NCCH 0x2345678A, OtherSaveDataGeneral 0x567890B2,
  OtherSaveDataPermitted 0x567890B4; the media types are NAND 0, SDMC 1, GameCard 2.
  Read as unsigned numbers the codes are the ten and the three values listed, and
  neither enumeration repeats a value.
\<close>

theorem category_and_medium_codes:
  "SelfNCCH = (0x00000003 :: 32 word) \<and> SaveData = (0x00000004 :: 32 word)
   \<and> ExtSaveData = (0x00000006 :: 32 word) \<and> SharedExtSaveData = (0x00000007 :: 32 word)
   \<and> SystemSaveData = (0x00000008 :: 32 word) \<and> SDMC = (0x00000009 :: 32 word)
   \<and> SDMCWriteOnly = (0x0000000A :: 32 word) \<and> NCCH = (0x2345678A :: 32 word)
   \<and> OtherSaveDataGeneral = (0x567890B2 :: 32 word)
   \<and> OtherSaveDataPermitted = (0x567890B4 :: 32 word)
   \<and> map unat ArchiveIdCode_values =
        [3, 4, 6, 7, 8, 9, 10, 591751050, 1450741938, 1450741940]
   \<and> distinct ArchiveIdCode_values
   \<and> MediaType_NAND = (0 :: 32 word) \<and> MediaType_SDMC = (1 :: 32 word)
   \<and> MediaType_GameCard = (2 :: 32 word)
   \<and> map unat MediaType_values = [0, 1, 2]
   \<and> distinct MediaType_values"
  by (simp add: ArchiveIdCode_values_def MediaType_values_def ArchiveIdCode_defs MediaType_defs)

section \<open>Failures\<close>

text \<open>
  C3. \<open>OpenArchive\<close> with a category code that is not registered fails with
  Not-Found and returns the manager as it was, handle counter and handle table
  included. Every failed \<open>OpenArchive\<close>, every failed create (of extended save data,
  of system save data, of a file, of a directory) and a failed registration return
  the manager unchanged, so no handle-table entry and no registry entry is left
  behind; the same holds of every failed public call.
\<close>

theorem failed_calls_change_nothing:
  "(id_code_map s c = None \<longrightarrow> OpenArchive c path s = (Inl NotFound, s))
   \<and> (isl (fst (OpenArchive c_a path_a s)) \<longrightarrow> snd (OpenArchive c_a path_a s) = s)
   \<and> (isl (fst (CreateExtSaveData m high low icon info s)) \<longrightarrow>
        snd (CreateExtSaveData m high low icon info s) = s)
   \<and> (isl (fst (CreateSystemSaveData high_a low_a s)) \<longrightarrow>
        snd (CreateSystemSaveData high_a low_a s) = s)
   \<and> (isl (fst (CreateFileInArchive h new_file file_size s)) \<longrightarrow>
        snd (CreateFileInArchive h new_file file_size s) = s)
   \<and> (isl (fst (CreateDirectoryFromArchive h_a directory s)) \<longrightarrow>
        snd (CreateDirectoryFromArchive h_a directory s) = s)
   \<and> (isl (fst (RegisterArchiveType factory c_b s)) \<longrightarrow>
        snd (RegisterArchiveType factory c_b s) = s)
   \<and> (isl (fst (call op s)) \<longrightarrow> snd (call op s) = s)"
proof -
  have "id_code_map s c = None \<longrightarrow> OpenArchive c path s = (Inl NotFound, s)"
    by (simp add: OpenArchive_def)
  then show ?thesis
    by (simp add: handle_operations_failed category_operations_failed call_failed)
qed

text \<open>
  The theorem on the installation: code 5 is not registered; a text path is refused
  by the removable card; the extended and the system save data exist already; handle
  7 is not open; the removable card is registered already.
\<close>

theorem failed_calls_change_nothing_witness:
  "id_code_map card_manager 5 = None
   \<and> OpenArchive 5 EmptyPath card_manager = (Inl NotFound, card_manager)
   \<and> isl (fst (OpenArchive SDMC (TextPath ''/'') card_manager))
   \<and> snd (OpenArchive SDMC (TextPath ''/'') card_manager) = card_manager
   \<and> isl (fst (CreateExtSaveData MediaType_SDMC 0 1 [] card_info card_manager))
   \<and> snd (CreateExtSaveData MediaType_SDMC 0 1 [] card_info card_manager) = card_manager
   \<and> isl (fst (CreateSystemSaveData 0 1 card_manager))
   \<and> snd (CreateSystemSaveData 0 1 card_manager) = card_manager
   \<and> isl (fst (CreateFileInArchive 7 (TextPath ''/x'') 4 card_manager))
   \<and> snd (CreateFileInArchive 7 (TextPath ''/x'') 4 card_manager) = card_manager
   \<and> isl (fst (CreateDirectoryFromArchive 7 (TextPath ''/d'') card_manager))
   \<and> snd (CreateDirectoryFromArchive 7 (TextPath ''/d'') card_manager) = card_manager
   \<and> isl (fst (RegisterArchiveType (new_factory SDMC) SDMC card_manager))
   \<and> snd (RegisterArchiveType (new_factory SDMC) SDMC card_manager) = card_manager
   \<and> isl (fst (call (Call_CloseArchive 7) card_manager))
   \<and> snd (call (Call_CloseArchive 7) card_manager) = card_manager"
proof -
  have unregistered: "id_code_map card_manager 5 = None"
    by (simp add: evaluation)
  have failing:
    "isl (fst (OpenArchive SDMC (TextPath ''/'') card_manager))"
    "isl (fst (CreateExtSaveData MediaType_SDMC 0 1 [] card_info card_manager))"
    "isl (fst (CreateSystemSaveData 0 1 card_manager))"
    "isl (fst (CreateFileInArchive 7 (TextPath ''/x'') 4 card_manager))"
    "isl (fst (CreateDirectoryFromArchive 7 (TextPath ''/d'') card_manager))"
    "isl (fst (RegisterArchiveType (new_factory SDMC) SDMC card_manager))"
    "isl (fst (call (Call_CloseArchive 7) card_manager))"
    by (simp_all add: evaluation)
  from failed_calls_change_nothing
    [where s = card_manager and c = 5 and path = EmptyPath
      and c_a = SDMC and path_a = "TextPath ''/''"
      and m = MediaType_SDMC and high = 0 and low = 1 and icon = "[]" and info = card_info
      and high_a = 0 and low_a = 1
      and h = 7 and new_file = "TextPath ''/x''" and file_size = 4
      and h_a = 7 and directory = "TextPath ''/d''"
      and factory = "new_factory SDMC" and c_b = SDMC
      and op = "Call_CloseArchive 7"]
    unregistered failing
  show ?thesis
    by (simp del: call.simps)
qed

section \<open>Format and format info\<close>

text \<open>
  C5. When \<open>FormatArchive\<close> with a category, a path and a format info has succeeded,
  \<open>GetArchiveFormatInfo\<close> with that category and path succeeds and returns exactly
  that format info, and it does so whatever the handle table and the handle counter
  hold, that is, with or without a handle open on the location. In any state the
  result of \<open>GetArchiveFormatInfo\<close> is the same with any other handle table.
\<close>

theorem format_then_format_info:
  assumes "fst (FormatArchive c info path s) = RESULT_SUCCESS"
  shows "fst (GetArchiveFormatInfo c path (snd (FormatArchive c info path s))) = Inr info
    \<and> fst (GetArchiveFormatInfo c path
          (with_handle_table table counter (snd (FormatArchive c info path s)))) = Inr info
    \<and> fst (GetArchiveFormatInfo c_a path_a (with_handle_table table counter s_a)) =
        fst (GetArchiveFormatInfo c_a path_a s_a)"
proof -
  from assms obtain factory where
    f: "id_code_map s c = Some factory" and
    ok: "path_accepted (factory_id_code factory) path"
    by (auto simp add: FormatArchive_def Factory_Format_def split: option.splits if_splits)
  then have "fst (GetArchiveFormatInfo c path (snd (FormatArchive c info path s))) = Inr info"
    by (simp add: FormatArchive_def GetArchiveFormatInfo_def Factory_Format_def
        Factory_GetFormatInfo_def formatted_Volume_def)
  then show ?thesis
    by (simp add: with_handle_table_def GetArchiveFormatInfo_ignores_handles)
qed

text \<open>
  The theorem on the installation, where handle 2 is open on the save data that is
  formatted, and with an empty handle table.
\<close>

theorem format_then_format_info_witness:
  "fst (FormatArchive SaveData larger_info EmptyPath two_archives) = RESULT_SUCCESS
   \<and> fst (GetArchiveFormatInfo SaveData EmptyPath
          (snd (FormatArchive SaveData larger_info EmptyPath two_archives))) = Inr larger_info
   \<and> fst (GetArchiveFormatInfo SaveData EmptyPath
          (with_handle_table Map.empty 1
             (snd (FormatArchive SaveData larger_info EmptyPath two_archives)))) =
        Inr larger_info
   \<and> fst (GetArchiveFormatInfo SDMC EmptyPath (with_handle_table Map.empty 1 two_archives)) =
        Inr card_info"
proof -
  have formatted: "fst (FormatArchive SaveData larger_info EmptyPath two_archives) = RESULT_SUCCESS"
    by (simp add: FormatArchive_def Factory_Format_def two_archives_fields
        card_manager_def new_ArchiveManager_registry new_factory_def save_data_style_def
        ArchiveIdCode_values_def ArchiveIdCode_defs)
  have "fst (GetArchiveFormatInfo SDMC EmptyPath two_archives) = Inr card_info"
    by (simp add: GetArchiveFormatInfo_def Factory_GetFormatInfo_def two_archives_fields
        card_manager_def new_ArchiveManager_registry new_factory_def save_data_style_def
        card_storage_def formatted_Volume_def ArchiveIdCode_values_def ArchiveIdCode_defs)
  with format_then_format_info [OF formatted, of Map.empty 1 SDMC EmptyPath two_archives]
    formatted
  show ?thesis
    by simp
qed

section \<open>The save-data lifecycle\<close>





section \<open>The public surface\<close>

text \<open>
  C8, with the count of the header. The public member functions of the class
  besides the constructor are nineteen, with nineteen different names; they are the
  operations that section 4 of the specification enumerates; and every call is a call
  of one of them, each of them being called by some call.
\<close>

theorem public_surface:
  "distinct public_operations \<and> length public_operations = 19
   \<and> set public_operations = set specified_operations
   \<and> range operation_name = set public_operations"
proof -
  have d: "distinct public_operations" and l: "length public_operations = 19"
    by (simp_all add: public_operations_def)
  have s: "set public_operations = set specified_operations"
    by (simp add: public_operations_def specified_operations_def set_eq_subset)
  have "operation_name op \<in> set public_operations" for op
    by (cases op) (simp_all add: public_operations_def)
  then have sub: "range operation_name \<subseteq> set public_operations"
    by blast
  have m: "public_operations = map operation_name
     [Call_OpenArchive 0 EmptyPath, Call_CloseArchive 0, Call_OpenFileFromArchive 0 EmptyPath 0,
      Call_DeleteFileFromArchive 0 EmptyPath,
      Call_RenameFileBetweenArchives 0 EmptyPath 0 EmptyPath,
      Call_DeleteDirectoryFromArchive 0 EmptyPath,
      Call_DeleteDirectoryRecursivelyFromArchive 0 EmptyPath,
      Call_CreateFileInArchive 0 EmptyPath 0, Call_CreateDirectoryFromArchive 0 EmptyPath,
      Call_RenameDirectoryBetweenArchives 0 EmptyPath 0 EmptyPath,
      Call_OpenDirectoryFromArchive 0 EmptyPath, Call_GetFreeBytesInArchive 0,
      Call_FormatArchive 0 card_info EmptyPath, Call_GetArchiveFormatInfo 0 EmptyPath,
      Call_CreateExtSaveData 0 0 0 [] card_info, Call_DeleteExtSaveData 0 0 0,
      Call_DeleteSystemSaveData 0 0, Call_CreateSystemSaveData 0 0, Call_RegisterSelfNCCH 0]"
    by (simp add: public_operations_def)
  have "set public_operations \<subseteq> range operation_name"
    by (subst m) (simp only: set_map image_mono subset_UNIV)
  with sub d l s show ?thesis
    by blast
qed

text \<open>
  C8 as stated counts thirteen operations: the header declares nineteen, and
  section 4 of the specification enumerates nineteen.
\<close>

theorem public_surface_is_not_thirteen:
  "card (set public_operations) \<noteq> 13 \<and> length specified_operations \<noteq> 13"
proof -
  have "distinct public_operations"
    by (simp add: public_operations_def)
  then have "card (set public_operations) = length public_operations"
    by (rule distinct_card)
  then show ?thesis
    by (simp add: public_operations_def specified_operations_def)
qed

section \<open>The registry\<close>


end
